theory Spec2Isabelle
  imports Complex_Main "HOL-Library.DAList"
begin

section \<open>LinkBay-AI: tools, budget control, provider retry and orchestration\<close>

text \<open>
  A shallow embedding of the Python package \<open>linkbay_ai\<close>: \<open>tools.py\<close>
  (\<open>ToolsManager\<close>), \<open>cost_controller.py\<close> (\<open>CostController\<close>), \<open>providers.py\<close>
  (\<open>BaseProvider._execute_with_retry\<close>) and \<open>core.py\<close> (\<open>AIOrchestrator\<close>).

  Conventions used throughout:
  \<^item> a Python object is a record, and a method takes the object and returns the
    updated object next to its result;
  \<^item> a raised exception is the \<open>Inl\<close> of a sum, a returned value the \<open>Inr\<close>;
  \<^item> a \<open>dict\<close> whose key order is observable is a \<open>DAList\<close> association list
    (distinct keys; an assignment to an existing key keeps the key's position, a new key
    goes to the end, as in Python); a \<open>dict\<close> that is only looked up is a map;
  \<^item> an instance attribute that may not have been assigned is an \<open>option\<close>:
    \<open>None\<close> means that reading it raises \<open>AttributeError\<close>;
  \<^item> \<open>async\<close> functions are run to completion: awaiting is sequential in every
    function modelled here;
  \<^item> calls to \<open>logger\<close> are not modelled.
\<close>

subsection \<open>Data: JSON values\<close>

text \<open>The values of type \<open>Any\<close> and \<open>Dict[str, Any]\<close> that tools exchange.\<close>

datatype json =
    JNull
  | JBool bool
  | JInt int
  | JStr string
  | JList "json list"
  | JObj "(string \<times> json) list"

subsection \<open>tools.py: the tool registry and dispatcher\<close>

text \<open>
  The three exception classes of \<open>tools.py\<close> (lines 11 to 21):
  \<open>ToolValidationError\<close> and \<open>ToolNotFoundError\<close> both derive from
  \<open>ToolExecutionError\<close>.
\<close>

datatype tool_error_class = ToolExecutionError | ToolValidationError | ToolNotFoundError

text \<open>\<open>issubclass c d\<close>: an exception of class \<open>c\<close> is caught by \<open>except d\<close>.\<close>

fun issubclass :: "tool_error_class \<Rightarrow> tool_error_class \<Rightarrow> bool" where
  "issubclass c ToolExecutionError = True"
| "issubclass ToolValidationError ToolValidationError = True"
| "issubclass ToolNotFoundError ToolNotFoundError = True"
| "issubclass c d = False"

text \<open>
  An exception raised by a handler: its class name and its message (\<open>str(e)\<close>).
\<close>

datatype py_exception = PyException (exc_class: string) (exc_str: string)

text \<open>
  An exception raised by \<open>execute_tool\<close>: its class, its message, and the exception
  that was being handled when it was raised (Python's \<open>__context__\<close>, set by a
  \<open>raise\<close> inside an \<open>except\<close> block).
\<close>

datatype tool_error =
  ToolError (error_class: tool_error_class) (error_message: string)
    (error_context: "py_exception option")

text \<open>
  A handler is called with the keyword arguments of the tool call and awaited. Every
  failure of \<open>await function(**tool_call.arguments)\<close> is an exception inside the
  \<open>try\<close> block: the handler's own exception, the \<open>TypeError\<close> of an unexpected
  keyword, the \<open>TypeError\<close> of awaiting a value that is not awaitable.
\<close>

datatype handler_result = Returns json | Raises py_exception

type_synonym handler = "(string \<times> json) list \<Rightarrow> handler_result"

text \<open>
  Modelled from the spec: \<open>ToolCall\<close> is imported from \<open>schemas.py\<close>, whose
  version under \<open>src/\<close> does not declare it; the spec gives
  ``ToolCall: {name, arguments mapping}''.
\<close>

record tool_call =
  call_name :: string
  call_arguments :: "(string \<times> json) list"

text \<open>
  The definition appended by \<open>register_tool\<close>:
  \<open>{"type": "function", "function": {"name": .., "description": .., "parameters": ..}}\<close>.
\<close>

record function_definition =
  fn_name :: string
  fn_description :: string
  fn_parameters :: json

record tool_definition =
  def_type :: string
  def_function :: function_definition

record tools_manager =
  tools :: "(string, handler) alist"
  tool_definitions :: "tool_definition list"

definition ToolsManager_init :: tools_manager where
  "ToolsManager_init = \<lparr> tools = DAList.empty, tool_definitions = [] \<rparr>"

definition register_tool ::
  "tools_manager \<Rightarrow> string \<Rightarrow> handler \<Rightarrow> string \<Rightarrow> json \<Rightarrow> tools_manager" where
  "register_tool m name fn description parameters =
     (let tool_def = \<lparr> def_type = ''function'',
                        def_function = \<lparr> fn_name = name, fn_description = description,
                                           fn_parameters = parameters \<rparr> \<rparr>
      in m \<lparr> tools := DAList.update name fn (tools m),
             tool_definitions := tool_definitions m @ [tool_def] \<rparr>)"

definition get_tool_definitions :: "tools_manager \<Rightarrow> tool_definition list" where
  "get_tool_definitions m = tool_definitions m"

definition execute_tool :: "tools_manager \<Rightarrow> tool_call \<Rightarrow> tool_error + json" where
  "execute_tool m c =
     (case DAList.lookup (tools m) (call_name c) of
        None \<Rightarrow> Inl (ToolError ToolExecutionError (''Tool non trovato: '' @ call_name c) None)
      | Some fn \<Rightarrow>
          (case fn (call_arguments c) of
             Returns result \<Rightarrow> Inr result
           | Raises e \<Rightarrow>
               Inl (ToolError ToolExecutionError
                      (''Errore esecuzione '' @ call_name c @ '': '' @ exc_str e) (Some e))))"

definition list_tools :: "tools_manager \<Rightarrow> string list" where
  "list_tools m = map fst (DAList.impl_of (tools m))"

text \<open>The definitions that bear a given name.\<close>

definition definitions_named :: "string \<Rightarrow> tool_definition list \<Rightarrow> tool_definition list" where
  "definitions_named name ds = filter (\<lambda>d. fn_name (def_function d) = name) ds"

subsection \<open>Exceptions of the cost controller, the providers and the orchestrator\<close>

text \<open>
  One constructor per exception class that the modelled functions raise
  (\<open>Exception\<close> is an instance of the base class itself). A message
  built by an f-string is kept as its fixed text followed by the interpolated
  \<open>str(e)\<close> of a caught exception; interpolated numbers are left out.
  \<open>AttributeError a\<close> is the failure of reading the attribute \<open>a\<close> of an
  object that does not have it. \<open>BudgetExceededException\<close> carries the ceiling
  that was exceeded.
\<close>

datatype budget_limit = HourlyTokens | DailyTokens | HourlyCost

datatype exception =
    Exception string
  | ValueError string
  | ZeroDivisionError
  | AttributeError string
  | BudgetExceededException budget_limit
  | ProviderError string
  | ProviderTimeoutError string
  | ProviderRateLimitError string
  | ProviderConnectionError string

subsection \<open>cost_controller.py: budget windows\<close>

text \<open>
  Modelled from the spec: \<open>BudgetConfig\<close> is imported from \<open>schemas.py\<close>, whose
  version under \<open>src/\<close> does not declare it; the spec gives ``max tokens per hour,
  max tokens per day, max monetary cost per hour, alert threshold''. The fields carry
  the names \<open>cost_controller.py\<close> reads. Python \<open>float\<close>s (costs, the threshold,
  percentages) are exact rationals here; no statement below depends on rounding.
\<close>

record budget_config =
  max_tokens_per_hour :: int
  max_tokens_per_day :: int
  max_cost_per_hour :: rat
  alert_threshold :: rat

text \<open>
  Time. \<open>datetime.now()\<close> is a parameter \<open>now\<close> of every operation that reads the
  clock: the number of the current hour, counted from a fixed origin. The keys
  \<open>strftime("%Y-%m-%d-%H")\<close> and \<open>strftime("%Y-%m-%d")\<close> are zero-padded and of
  fixed width, so the order of the strings (which \<open>_cleanup_old_entries\<close> compares
  with \<open>>\<close>) is the order of the hours and days they name; a key is therefore the
  number of its hour, respectively of its day.
\<close>

definition get_hour_key :: "int \<Rightarrow> int" where
  "get_hour_key now = now"

definition get_day_key :: "int \<Rightarrow> int" where
  "get_day_key now = now div 24"

record cost_controller =
  config :: budget_config
  hourly_usage :: "int \<rightharpoonup> int"
  daily_usage :: "int \<rightharpoonup> int"
  hourly_cost :: "int \<rightharpoonup> rat"
  token_costs :: "string \<rightharpoonup> rat"

definition CostController_init :: "budget_config \<Rightarrow> cost_controller" where
  "CostController_init cfg =
     \<lparr> config = cfg, hourly_usage = Map.empty, daily_usage = Map.empty,
       hourly_cost = Map.empty,
       token_costs = [''deepseek-chat'' \<mapsto> 14 / 100 / 1000000,
                      ''deepseek-reasoner'' \<mapsto> 55 / 100 / 1000000,
                      ''gpt-3.5-turbo'' \<mapsto> 5 / 10 / 1000000,
                      ''gpt-4'' \<mapsto> 30 / 1000000] \<rparr>"

text \<open>\<open>d.get(k, default)\<close>.\<close>

definition dict_get :: "('k \<rightharpoonup> 'v) \<Rightarrow> 'k \<Rightarrow> 'v \<Rightarrow> 'v" where
  "dict_get d k dflt = (case d k of None \<Rightarrow> dflt | Some v \<Rightarrow> v)"

text \<open>\<open>{k: v for k, v in d.items() if k > threshold}\<close>.\<close>

definition keep_newer :: "int \<Rightarrow> (int \<rightharpoonup> 'v) \<Rightarrow> (int \<rightharpoonup> 'v)" where
  "keep_newer threshold d = (\<lambda>k. if k > threshold then d k else None)"

definition cleanup_old_entries :: "cost_controller \<Rightarrow> int \<Rightarrow> cost_controller" where
  "cleanup_old_entries c now =
     (let hour_threshold = get_hour_key (now - 2);
          day_threshold = get_day_key (now - 2 * 24)
      in c \<lparr> hourly_usage := keep_newer hour_threshold (hourly_usage c),
             hourly_cost := keep_newer hour_threshold (hourly_cost c),
             daily_usage := keep_newer day_threshold (daily_usage c) \<rparr>)"

text \<open>Python's \<open>a / b\<close> on two \<open>int\<close>s.\<close>

definition truediv :: "int \<Rightarrow> int \<Rightarrow> exception + rat" where
  "truediv a b = (if b = 0 then Inl ZeroDivisionError else Inr (of_int a / of_int b))"

text \<open>
  \<open>check_budget\<close> returns \<open>True\<close> or raises. The comparison of \<open>hourly_percent\<close>
  with the alert threshold only selects a log message, so nothing of it remains but
  the division that computes \<open>hourly_percent\<close>.
\<close>

definition check_budget ::
  "cost_controller \<Rightarrow> int \<Rightarrow> string \<Rightarrow> int \<Rightarrow> (exception + bool) \<times> cost_controller" where
  "check_budget c estimated_tokens model_name now =
     (if estimated_tokens < 0 then
        (Inl (ValueError ''estimated_tokens deve essere positivo''), c)
      else if estimated_tokens > max_tokens_per_hour (config c) then
        (Inl (ValueError ''Richiesta supera il limite orario massimo''), c)
      else
        let c1 = cleanup_old_entries c now;
            hour_key = get_hour_key now;
            day_key = get_day_key now;
            current_hourly = dict_get (hourly_usage c1) hour_key 0
        in if current_hourly + estimated_tokens > max_tokens_per_hour (config c1) then
             (Inl (BudgetExceededException HourlyTokens), c1)
           else
             let current_daily = dict_get (daily_usage c1) day_key 0
             in if current_daily + estimated_tokens > max_tokens_per_day (config c1) then
                  (Inl (BudgetExceededException DailyTokens), c1)
                else
                  let estimated_cost =
                        of_int estimated_tokens * dict_get (token_costs c1) model_name (1 / 1000);
                      current_cost = dict_get (hourly_cost c1) hour_key 0
                  in if current_cost + estimated_cost > max_cost_per_hour (config c1) then
                       (Inl (BudgetExceededException HourlyCost), c1)
                     else
                       (case truediv (current_hourly + estimated_tokens)
                               (max_tokens_per_hour (config c1)) of
                          Inl e \<Rightarrow> (Inl e, c1)
                        | Inr hourly_percent \<Rightarrow> (Inr True, c1)))"

definition record_usage :: "cost_controller \<Rightarrow> int \<Rightarrow> string \<Rightarrow> int \<Rightarrow> cost_controller" where
  "record_usage c tokens_used model_name now =
     (let hour_key = get_hour_key now;
          day_key = get_day_key now;
          cost = of_int tokens_used * dict_get (token_costs c) model_name (1 / 1000)
      in c \<lparr> hourly_usage :=
               (hourly_usage c)(hour_key \<mapsto> dict_get (hourly_usage c) hour_key 0 + tokens_used),
             daily_usage :=
               (daily_usage c)(day_key \<mapsto> dict_get (daily_usage c) day_key 0 + tokens_used),
             hourly_cost :=
               (hourly_cost c)(hour_key \<mapsto> dict_get (hourly_cost c) hour_key 0 + cost) \<rparr>)"

text \<open>
  The dictionary \<open>get_current_usage\<close> returns, flattened:
  \<open>usage["hourly"]["tokens"]\<close> is \<open>hourly_tokens\<close>, and so on.
\<close>

record current_usage =
  hourly_tokens :: int
  hourly_limit :: int
  hourly_percent :: rat
  hourly_cost_now :: rat
  hourly_cost_limit :: rat
  daily_tokens :: int
  daily_limit :: int
  daily_percent :: rat

definition get_current_usage :: "cost_controller \<Rightarrow> int \<Rightarrow> exception + current_usage" where
  "get_current_usage c now =
     (let hour_key = get_hour_key now;
          day_key = get_day_key now;
          tokens_h = dict_get (hourly_usage c) hour_key 0;
          tokens_d = dict_get (daily_usage c) day_key 0;
          cost_h = dict_get (hourly_cost c) hour_key 0
      in case truediv tokens_h (max_tokens_per_hour (config c)) of
           Inl e \<Rightarrow> Inl e
         | Inr qh \<Rightarrow>
             (case truediv tokens_d (max_tokens_per_day (config c)) of
                Inl e \<Rightarrow> Inl e
              | Inr qd \<Rightarrow>
                  Inr \<lparr> hourly_tokens = tokens_h,
                        hourly_limit = max_tokens_per_hour (config c),
                        hourly_percent = qh * 100,
                        hourly_cost_now = cost_h,
                        hourly_cost_limit = max_cost_per_hour (config c),
                        daily_tokens = tokens_d,
                        daily_limit = max_tokens_per_day (config c),
                        daily_percent = qd * 100 \<rparr>))"

definition reset_budgets :: "cost_controller \<Rightarrow> cost_controller" where
  "reset_budgets c =
     c \<lparr> hourly_usage := Map.empty, daily_usage := Map.empty, hourly_cost := Map.empty \<rparr>"

text \<open>A run of \<open>record_usage\<close> calls that all read the same clock value.\<close>

definition record_all :: "cost_controller \<Rightarrow> int list \<Rightarrow> string \<Rightarrow> int \<Rightarrow> cost_controller" where
  "record_all c ts model_name now = foldl (\<lambda>c' t. record_usage c' t model_name now) c ts"

subsection \<open>providers.py: the bounded-retry wrapper\<close>

text \<open>
  What the wrapped function can raise, by the \<open>except\<close> clause that catches it
  (the clauses are tried in this order, and the classes of the \<open>openai\<close> package are
  listed most specific first): \<open>RateLimitError\<close>, \<open>APITimeoutError\<close>,
  \<open>APIConnectionError\<close>, any other \<open>APIError\<close> (with its \<open>status_code\<close>
  when it has that attribute), and any other \<open>Exception\<close>. Each carries its
  \<open>str(e)\<close>.
\<close>

datatype api_exception =
    RateLimitError string
  | APITimeoutError string
  | APIConnectionError string
  | APIError "int option" string
  | OtherException string

datatype 'a call_result = Returned 'a | Raised api_exception

text \<open>
  The wrapped function \<open>func\<close> is stateful: what it does may differ from call to
  call. Within one wrapper call it is invoked at most once per attempt and the attempts
  are numbered from 0, so it is modelled by the result of its invocation in attempt
  \<open>k\<close>, for every \<open>k\<close>.

  The observable effects of one wrapper call are recorded in order: \<open>Invoked k\<close> for
  the invocation of \<open>func\<close> in attempt \<open>k\<close>, \<open>Slept d\<close> for
  \<open>await asyncio.sleep(d)\<close>.
\<close>

datatype event = Invoked nat | Slept rat

text \<open>
  Modelled from the spec: \<open>ProviderConfig\<close> as \<open>providers.py\<close> uses it
  (\<open>provider_type\<close>, \<open>timeout\<close>) is not the class declared in the \<open>schemas.py\<close>
  under \<open>src/\<close>; the spec gives ``credentials, base endpoint, default model name, a
  provider-type tag, a priority (lower = tried first), a timeout''.
  \<open>provider_type\<close> holds the tag's \<open>.value\<close>.
\<close>

record provider_config =
  api_key :: string
  base_url :: string
  default_model :: string
  provider_type :: string
  priority :: int
  timeout :: rat

text \<open>
  A provider object. \<open>BaseProvider.__init__\<close> (lines 29 to 31) assigns \<open>config\<close>
  and \<open>name\<close> and nothing else; no other line of the package assigns
  \<open>request_count\<close> or \<open>error_count\<close>, which \<open>_execute_with_retry\<close> increments.
  The two attributes are therefore optional: \<open>None\<close> is an object without the
  attribute.
\<close>

record base_provider =
  cfg :: provider_config
  name :: string
  request_count :: "int option"
  error_count :: "int option"

definition BaseProvider_init :: "provider_config \<Rightarrow> base_provider" where
  "BaseProvider_init c =
     \<lparr> cfg = c, name = provider_type c, request_count = None, error_count = None \<rparr>"

text \<open>
  How the \<open>for attempt in range(max_retries)\<close> loop is left: by \<open>return result\<close>,
  by the \<open>raise\<close> of the client-error branch, or by running out of attempts or
  \<open>break\<close>, in which case control reaches the code after the loop with the current
  \<open>last_exception\<close>.
\<close>

datatype 'a loop_exit = Return 'a | Raise exception | AfterLoop "exception option"

text \<open>\<open>str\<close> of the \<open>AttributeError\<close> for a missing attribute.\<close>

definition no_attribute :: "string \<Rightarrow> string" where
  "no_attribute a = ''object has no attribute '' @ a"

text \<open>
  The loop, from attempt number \<open>attempt\<close> with \<open>remaining\<close> attempts left.
  \<open>self.request_count += 1\<close> is the first statement inside the \<open>try\<close>: on an
  object without the attribute it raises \<open>AttributeError\<close>, which none of the first
  four clauses catches and \<open>except Exception\<close> does, before \<open>func\<close> is invoked.
\<close>

fun attempts ::
  "base_provider \<Rightarrow> (nat \<Rightarrow> 'a call_result) \<Rightarrow> rat \<Rightarrow> nat \<Rightarrow> nat \<Rightarrow> exception option
     \<Rightarrow> event list \<Rightarrow> 'a loop_exit \<times> base_provider \<times> event list" where
  "attempts p func backoff_factor attempt 0 last_exception evs =
     (AfterLoop last_exception, p, evs)"
| "attempts p func backoff_factor attempt (Suc remaining) last_exception evs =
     (case request_count p of
        None \<Rightarrow>
          (AfterLoop (Some (ProviderError
             (''Unexpected error: '' @ no_attribute ''request_count''))), p, evs)
      | Some n \<Rightarrow>
          let p1 = p \<lparr> request_count := Some (n + 1) \<rparr>;
              evs1 = evs @ [Invoked attempt]
          in (case func attempt of
                Returned result \<Rightarrow> (Return result, p1, evs1)
              | Raised (RateLimitError e) \<Rightarrow>
                  let wait_time = 2 ^ attempt * backoff_factor
                  in attempts p1 func backoff_factor (Suc attempt) remaining
                       (Some (ProviderRateLimitError (''Rate limit error: '' @ e)))
                       (evs1 @ [Slept wait_time])
              | Raised (APITimeoutError e) \<Rightarrow>
                  attempts p1 func backoff_factor (Suc attempt) remaining
                    (Some (ProviderTimeoutError (''Timeout: '' @ e)))
                    (evs1 @ [Slept (2 ^ attempt)])
              | Raised (APIConnectionError e) \<Rightarrow>
                  attempts p1 func backoff_factor (Suc attempt) remaining
                    (Some (ProviderConnectionError (''Connection error: '' @ e)))
                    (evs1 @ [Slept (2 ^ attempt)])
              | Raised (APIError status_code e) \<Rightarrow>
                  if (case status_code of None \<Rightarrow> False | Some s \<Rightarrow> 400 \<le> s \<and> s < 500)
                  then (Raise (ProviderError (''Client error: '' @ e)), p1, evs1)
                  else attempts p1 func backoff_factor (Suc attempt) remaining
                         (Some (ProviderError (''API error: '' @ e)))
                         (evs1 @ [Slept (2 ^ attempt)])
              | Raised (OtherException e) \<Rightarrow>
                  (AfterLoop (Some (ProviderError (''Unexpected error: '' @ e))), p1, evs1)))"

text \<open>
  \<open>_execute_with_retry(func, max_retries, backoff_factor)\<close>: the loop, then
  \<open>self.error_count += 1\<close> and \<open>raise last_exception or ProviderError(..)\<close>.
  \<open>range(max_retries)\<close> is empty for a \<open>max_retries\<close> below 1. The result is the
  outcome, the provider object afterwards, and the events in order.
\<close>

definition execute_with_retry ::
  "base_provider \<Rightarrow> (nat \<Rightarrow> 'a call_result) \<Rightarrow> int \<Rightarrow> rat
     \<Rightarrow> (exception + 'a) \<times> base_provider \<times> event list" where
  "execute_with_retry p func max_retries backoff_factor =
     (case attempts p func backoff_factor 0 (nat max_retries) None [] of
        (Return result, p1, evs) \<Rightarrow> (Inr result, p1, evs)
      | (Raise e, p1, evs) \<Rightarrow> (Inl e, p1, evs)
      | (AfterLoop last_exception, p1, evs) \<Rightarrow>
          (case error_count p1 of
             None \<Rightarrow> (Inl (AttributeError ''error_count''), p1, evs)
           | Some n \<Rightarrow>
               (Inl (case last_exception of
                       Some e \<Rightarrow> e
                     | None \<Rightarrow> ProviderError (''Provider '' @ name p1 @ '' non disponibile'')),
                p1 \<lparr> error_count := Some (n + 1) \<rparr>, evs)))"

text \<open>The sleeps of a run, and the attempts in which \<open>func\<close> was invoked.\<close>

fun sleeps :: "event list \<Rightarrow> rat list" where
  "sleeps [] = []"
| "sleeps (Slept d # evs) = d # sleeps evs"
| "sleeps (Invoked k # evs) = sleeps evs"

fun invocations :: "event list \<Rightarrow> nat list" where
  "invocations [] = []"
| "invocations (Invoked k # evs) = k # invocations evs"
| "invocations (Slept d # evs) = invocations evs"

text \<open>
  The errors the wrapper retries, the provider-level error it records for each as
  \<open>last_exception\<close>, and the sleep that follows each in attempt \<open>attempt\<close>.
\<close>

fun retryable :: "api_exception \<Rightarrow> bool" where
  "retryable (RateLimitError e) = True"
| "retryable (APITimeoutError e) = True"
| "retryable (APIConnectionError e) = True"
| "retryable (APIError status_code e) =
     (case status_code of None \<Rightarrow> True | Some s \<Rightarrow> \<not> (400 \<le> s \<and> s < 500))"
| "retryable (OtherException e) = False"

fun provider_error_of :: "api_exception \<Rightarrow> exception" where
  "provider_error_of (RateLimitError e) = ProviderRateLimitError (''Rate limit error: '' @ e)"
| "provider_error_of (APITimeoutError e) = ProviderTimeoutError (''Timeout: '' @ e)"
| "provider_error_of (APIConnectionError e) = ProviderConnectionError (''Connection error: '' @ e)"
| "provider_error_of (APIError status_code e) = ProviderError (''API error: '' @ e)"
| "provider_error_of (OtherException e) = ProviderError (''Unexpected error: '' @ e)"

fun backoff :: "rat \<Rightarrow> nat \<Rightarrow> api_exception \<Rightarrow> rat" where
  "backoff backoff_factor attempt (RateLimitError e) = 2 ^ attempt * backoff_factor"
| "backoff backoff_factor attempt e = 2 ^ attempt"

subsection \<open>core.py: the orchestrator\<close>

text \<open>\<open>GenerationParams\<close> of \<open>schemas.py\<close>, with its defaults.\<close>

record generation_params =
  model :: string
  max_tokens :: int
  stream :: bool
  temperature :: rat

definition GenerationParams :: "string \<Rightarrow> generation_params" where
  "GenerationParams m = \<lparr> model = m, max_tokens = 1000, stream = False, temperature = 7 / 10 \<rparr>"

text \<open>
  What \<open>core.py\<close> uses of a registered provider: the call
  \<open>provider.chat(prompt, params)\<close>, which returns a value or raises. The call is
  not awaited, and the value is of any type \<open>'r\<close>: the response text of a
  provider whose \<open>chat\<close> is an ordinary method (the type \<open>core.py\<close>
  annotates), or whatever else the method hands back.
\<close>

record 'r provider =
  chat :: "string \<Rightarrow> generation_params \<Rightarrow> exception + 'r"

text \<open>An entry of \<open>request_history\<close>: the keys \<open>prompt\<close>, \<open>model\<close>, \<open>response\<close>.\<close>

record 'r history_entry =
  entry_prompt :: string
  entry_model :: string
  entry_response :: 'r

record 'r ai_orchestrator =
  providers :: "(string, 'r provider) alist"
  request_history :: "'r history_entry list"

definition AIOrchestrator_init :: "'r ai_orchestrator" where
  "AIOrchestrator_init = \<lparr> providers = DAList.empty, request_history = [] \<rparr>"

definition register_provider ::
  "'r ai_orchestrator \<Rightarrow> string \<Rightarrow> 'r provider \<Rightarrow> 'r ai_orchestrator" where
  "register_provider orch nm prov = orch \<lparr> providers := DAList.update nm prov (providers orch) \<rparr>"

text \<open>
  \<open>AIOrchestrator.chat\<close> (lines 13 to 28): the first value of the \<open>providers\<close>
  dictionary is the only provider consulted, and an exception of its \<open>chat\<close> is not
  caught.
\<close>

definition AIOrchestrator_chat ::
  "'r ai_orchestrator \<Rightarrow> string \<Rightarrow> string \<Rightarrow> (exception + 'r) \<times> 'r ai_orchestrator" where
  "AIOrchestrator_chat orch prompt model_name =
     (case DAList.impl_of (providers orch) of
        [] \<Rightarrow> (Inl (ValueError ''No AI providers configured''), orch)
      | (nm, prov) # others \<Rightarrow>
          let params = GenerationParams model_name
          in (case chat prov prompt params of
                Inl e \<Rightarrow> (Inl e, orch)
              | Inr response \<Rightarrow>
                  (Inr response,
                   orch \<lparr> request_history := request_history orch @
                            [\<lparr> entry_prompt = prompt, entry_model = model_name,
                               entry_response = response \<rparr>] \<rparr>)))"

subsection \<open>Auxiliary definitions for the statements below\<close>

text \<open>
  The events of \<open>r\<close> consecutive attempts, starting with attempt \<open>a\<close>, each of
  which invokes \<open>func\<close> and, when it raised, sleeps; and the value of
  \<open>last_exception\<close> after them.
\<close>

fun failure_events :: "rat \<Rightarrow> (nat \<Rightarrow> 'a call_result) \<Rightarrow> nat \<Rightarrow> nat \<Rightarrow> event list" where
  "failure_events bf func a 0 = []"
| "failure_events bf func a (Suc r) =
     (case func a of
        Raised e \<Rightarrow> [Invoked a, Slept (backoff bf a e)]
      | Returned x \<Rightarrow> [Invoked a])
     @ failure_events bf func (Suc a) r"

fun last_exception_after ::
  "(nat \<Rightarrow> 'a call_result) \<Rightarrow> nat \<Rightarrow> nat \<Rightarrow> exception option \<Rightarrow> exception option" where
  "last_exception_after func a 0 le = le"
| "last_exception_after func a (Suc r) le =
     last_exception_after func (Suc a) r
       (case func a of Raised e \<Rightarrow> Some (provider_error_of e) | Returned x \<Rightarrow> le)"

text \<open>Providers with a fixed behaviour, and an orchestrator holding two of them.\<close>

definition always_raises :: "exception \<Rightarrow> 'r provider" where
  "always_raises e = \<lparr> chat = (\<lambda>prompt params. Inl e) \<rparr>"

definition always_answers :: "'r \<Rightarrow> 'r provider" where
  "always_answers r = \<lparr> chat = (\<lambda>prompt params. Inr r) \<rparr>"

definition two_providers :: "'r provider \<Rightarrow> 'r provider \<Rightarrow> 'r ai_orchestrator" where
  "two_providers p1 p2 =
     register_provider (register_provider AIOrchestrator_init ''P1'' p1) ''P2'' p2"

text \<open>
  Budget configurations: the one of the package's test
  (\<open>BudgetConfig(max_tokens_per_hour=1000)\<close>) and one whose hourly ceiling is zero.
  The fields the test leaves to their defaults are given values that do not bind.
\<close>

definition budget_1000 :: budget_config where
  "budget_1000 = \<lparr> max_tokens_per_hour = 1000, max_tokens_per_day = 1000000,
                    max_cost_per_hour = 10, alert_threshold = 8 / 10 \<rparr>"

definition budget_zero_hourly :: budget_config where
  "budget_zero_hourly = \<lparr> max_tokens_per_hour = 0, max_tokens_per_day = 1000000,
                           max_cost_per_hour = 10, alert_threshold = 8 / 10 \<rparr>"

text \<open>A controller that has recorded 500 and then 400 tokens in hour \<open>now\<close>.\<close>

definition spent_900 :: "int \<Rightarrow> cost_controller" where
  "spent_900 now = record_all (CostController_init budget_1000) [500, 400] ''deepseek-chat'' now"

section \<open>Properties\<close>

subsection \<open>The tool registry\<close>

lemma count_keys_update:
  "distinct (map fst xs) \<Longrightarrow> count_list (map fst (AList.update k v xs)) k = 1"
  by (induction xs) (auto simp: count_list_0_iff rev_image_eqI)

text \<open>
  An unregistered name: \<open>execute_tool\<close> raises an exception whose class is
  \<open>ToolExecutionError\<close> itself.
\<close>

lemma execute_tool_unregistered:
  assumes "DAList.lookup (tools m) (call_name c) = None"
  shows "execute_tool m c =
           Inl (ToolError ToolExecutionError (''Tool non trovato: '' @ call_name c) None)"
  using assms by (simp add: execute_tool_def)

text \<open>
  A registered name whose handler raises \<open>e\<close>: \<open>execute_tool\<close> raises a
  \<open>ToolExecutionError\<close> whose message holds the tool's name and \<open>str(e)\<close> and
  whose context is \<open>e\<close>.
\<close>

lemma execute_tool_handler_raises:
  assumes "DAList.lookup (tools m) (call_name c) = Some h"
    and "h (call_arguments c) = Raises e"
  shows "execute_tool m c =
           Inl (ToolError ToolExecutionError
                  (''Errore esecuzione '' @ call_name c @ '': '' @ exc_str e) (Some e))"
  using assms by (simp add: execute_tool_def)

lemma execute_tool_handler_returns:
  assumes "DAList.lookup (tools m) (call_name c) = Some h"
    and "h (call_arguments c) = Returns r"
  shows "execute_tool m c = Inr r"
  using assms by (simp add: execute_tool_def)

text \<open>
  Claim C9, first half, at a concrete input. On a manager with no tool registered, the
  call of the tool \<open>get_stock\<close> raises an exception of class \<open>ToolExecutionError\<close>
  with the message \<open>Tool non trovato: get_stock\<close>. That class is not a subclass of
  \<open>ToolNotFoundError\<close>, the class \<open>tools.py\<close> declares for a tool that is not in
  the registry: \<open>except ToolNotFoundError\<close> does not catch what is raised. (The
  second half of the claim, a handler that raises, is \<open>execute_tool_handler_raises\<close>.)
\<close>

theorem execute_tool_not_found_is_generic:
  "execute_tool ToolsManager_init \<lparr> call_name = ''get_stock'', call_arguments = [] \<rparr>
     = Inl (ToolError ToolExecutionError ''Tool non trovato: get_stock'' None)
   \<and> \<not> issubclass ToolExecutionError ToolNotFoundError"
  by (simp add: execute_tool_def ToolsManager_init_def)

text \<open>
  Claim C10. On any manager \<open>m\<close>, after \<open>register_tool\<close> with handler \<open>h1\<close>
  and then again, under the same name \<open>n\<close>, with handler \<open>h2\<close>: the handler stored
  for \<open>n\<close> is \<open>h2\<close>; \<open>list_tools\<close> holds \<open>n\<close> exactly once;
  \<open>execute_tool\<close> on \<open>n\<close> runs \<open>h2\<close> (it returns what \<open>h2\<close> returns and wraps
  what \<open>h2\<close> raises); and \<open>get_tool_definitions\<close> is the former list followed by two
  definitions named \<open>n\<close>, one per registration, so that the number of definitions
  named \<open>n\<close> has grown by two.
\<close>

theorem register_tool_twice:
  "DAList.lookup (tools (register_tool (register_tool m n h1 d1 p1) n h2 d2 p2)) n = Some h2
   \<and> count_list (list_tools (register_tool (register_tool m n h1 d1 p1) n h2 d2 p2)) n = 1
   \<and> execute_tool (register_tool (register_tool m n h1 d1 p1) n h2 d2 p2)
        \<lparr> call_name = n, call_arguments = args \<rparr>
      = (case h2 args of
           Returns r \<Rightarrow> Inr r
         | Raises e \<Rightarrow>
             Inl (ToolError ToolExecutionError
                    (''Errore esecuzione '' @ n @ '': '' @ exc_str e) (Some e)))
   \<and> get_tool_definitions (register_tool (register_tool m n h1 d1 p1) n h2 d2 p2)
      = get_tool_definitions m @
        [\<lparr> def_type = ''function'',
           def_function = \<lparr> fn_name = n, fn_description = d1, fn_parameters = p1 \<rparr> \<rparr>,
         \<lparr> def_type = ''function'',
           def_function = \<lparr> fn_name = n, fn_description = d2, fn_parameters = p2 \<rparr> \<rparr>]
   \<and> length (definitions_named n
         (get_tool_definitions (register_tool (register_tool m n h1 d1 p1) n h2 d2 p2)))
      = length (definitions_named n (get_tool_definitions m)) + 2"
  by (simp add: register_tool_def Let_def list_tools_def update.rep_eq count_keys_update
        distinct_update execute_tool_def get_tool_definitions_def definitions_named_def
      split: handler_result.splits)

text \<open>
  On a new manager the two registrations leave one name and exactly two definitions
  that bear it.
\<close>

lemma register_tool_twice_new_manager:
  "list_tools (register_tool (register_tool ToolsManager_init n h1 d1 p1) n h2 d2 p2) = [n]"
  "length (definitions_named n (get_tool_definitions
     (register_tool (register_tool ToolsManager_init n h1 d1 p1) n h2 d2 p2))) = 2"
  by (simp_all add: register_tool_def Let_def list_tools_def update.rep_eq empty.rep_eq
        ToolsManager_init_def get_tool_definitions_def definitions_named_def)

subsection \<open>The cost controller\<close>

text \<open>
  \<open>_cleanup_old_entries\<close> keeps the entries of the current hour and of the current
  day: their keys are above the thresholds, which lie two hours and two days back.
\<close>

lemma cleanup_keeps_current_hour:
  "dict_get (hourly_usage (cleanup_old_entries c now)) (get_hour_key now) d
     = dict_get (hourly_usage c) (get_hour_key now) d"
  by (simp add: cleanup_old_entries_def Let_def keep_newer_def get_hour_key_def dict_get_def)

lemma cleanup_keeps_current_cost:
  "dict_get (hourly_cost (cleanup_old_entries c now)) (get_hour_key now) d
     = dict_get (hourly_cost c) (get_hour_key now) d"
  by (simp add: cleanup_old_entries_def Let_def keep_newer_def get_hour_key_def dict_get_def)

lemma cleanup_keeps_current_day:
  "dict_get (daily_usage (cleanup_old_entries c now)) (get_day_key now) d
     = dict_get (daily_usage c) (get_day_key now) d"
proof -
  have "(now - 2 * 24) div 24 < now div 24"
    by presburger
  then show ?thesis
    by (simp add: cleanup_old_entries_def Let_def keep_newer_def get_day_key_def dict_get_def)
qed

lemma cleanup_config [simp]:
  "config (cleanup_old_entries c now) = config c"
  "token_costs (cleanup_old_entries c now) = token_costs c"
  by (simp_all add: cleanup_old_entries_def Let_def)

text \<open>A new controller has empty windows.\<close>

lemma init_windows:
  "dict_get (hourly_usage (CostController_init cf)) k d = d"
  "dict_get (daily_usage (CostController_init cf)) k d = d"
  "dict_get (hourly_cost (CostController_init cf)) k e = e"
  "config (CostController_init cf) = cf"
  by (simp_all add: CostController_init_def dict_get_def)

text \<open>
  The hourly check of \<open>check_budget\<close>, for a ceiling that is not zero. With an
  estimate between 0 and the hourly ceiling, and the daily and the cost ceiling not
  exceeded, \<open>check_budget\<close> returns \<open>True\<close> exactly when the tokens recorded for
  the current hour plus the estimate are at most the hourly ceiling, and raises
  \<open>BudgetExceededException\<close> for the hourly ceiling exactly when they exceed it.
\<close>

lemma check_budget_hourly_boundary:
  assumes "0 \<le> est" and "est \<le> max_tokens_per_hour (config c)"
    and "max_tokens_per_hour (config c) \<noteq> 0"
    and "dict_get (daily_usage c) (get_day_key now) 0 + est \<le> max_tokens_per_day (config c)"
    and "dict_get (hourly_cost c) (get_hour_key now) 0
           + of_int est * dict_get (token_costs c) m (1 / 1000) \<le> max_cost_per_hour (config c)"
  shows "(fst (check_budget c est m now) = Inr True
            \<longleftrightarrow> dict_get (hourly_usage c) (get_hour_key now) 0 + est
                  \<le> max_tokens_per_hour (config c))
       \<and> (fst (check_budget c est m now) = Inl (BudgetExceededException HourlyTokens)
            \<longleftrightarrow> dict_get (hourly_usage c) (get_hour_key now) 0 + est
                  > max_tokens_per_hour (config c))"
  using assms
  by (simp add: check_budget_def Let_def cleanup_keeps_current_hour cleanup_keeps_current_day
        cleanup_keeps_current_cost truediv_def)

text \<open>\<open>record_usage\<close> adds its tokens to the window of the current hour and of the current day.\<close>

lemma record_usage_adds:
  "dict_get (hourly_usage (record_usage c t m now)) (get_hour_key now) 0
     = dict_get (hourly_usage c) (get_hour_key now) 0 + t"
  "dict_get (daily_usage (record_usage c t m now)) (get_day_key now) 0
     = dict_get (daily_usage c) (get_day_key now) 0 + t"
  by (simp_all add: record_usage_def Let_def dict_get_def)

lemma record_all_hourly:
  "dict_get (hourly_usage (record_all c ts m now)) (get_hour_key now) 0
     = dict_get (hourly_usage c) (get_hour_key now) 0 + sum_list ts"
  unfolding record_all_def
  by (induction ts arbitrary: c) (simp_all add: record_usage_def Let_def dict_get_def)

lemma record_all_daily:
  "dict_get (daily_usage (record_all c ts m now)) (get_day_key now) 0
     = dict_get (daily_usage c) (get_day_key now) 0 + sum_list ts"
  unfolding record_all_def
  by (induction ts arbitrary: c) (simp_all add: record_usage_def Let_def dict_get_def)

lemma record_all_config [simp]:
  "config (record_all c ts m now) = config c"
  unfolding record_all_def
  by (induction ts arbitrary: c) (simp_all add: record_usage_def Let_def)

text \<open>
  With ceilings that are not zero, \<open>get_current_usage\<close> after a run of
  \<open>record_usage\<close> calls in one hour reports, as hourly tokens, what the window held
  before plus the sum of the recorded tokens; on a new controller, the sum.
\<close>

lemma get_current_usage_reports_sum:
  assumes "max_tokens_per_hour (config c) \<noteq> 0" and "max_tokens_per_day (config c) \<noteq> 0"
  shows "\<exists>u. get_current_usage (record_all c ts m now) now = Inr u
           \<and> hourly_tokens u = dict_get (hourly_usage c) (get_hour_key now) 0 + sum_list ts
           \<and> daily_tokens u = dict_get (daily_usage c) (get_day_key now) 0 + sum_list ts"
  using assms
  by (simp add: get_current_usage_def Let_def truediv_def record_all_hourly record_all_daily)

lemma get_current_usage_new_controller:
  assumes "max_tokens_per_hour cf \<noteq> 0" and "max_tokens_per_day cf \<noteq> 0"
  shows "\<exists>u. get_current_usage (record_all (CostController_init cf) ts m now) now = Inr u
           \<and> hourly_tokens u = sum_list ts"
proof -
  show ?thesis
    using get_current_usage_reports_sum [of "CostController_init cf" ts m now] assms
    by (auto simp: init_windows)
qed

text \<open>
  The package's test of the statistics: ceiling 1000, then \<open>record_usage(100)\<close> and
  \<open>record_usage(200)\<close>; the hourly tokens are 300 and the hourly percentage 30.
\<close>

lemma budget_stats_scenario:
  "\<exists>u. get_current_usage
          (record_all (CostController_init budget_1000) [100, 200] ''deepseek-chat'' now) now
        = Inr u
      \<and> hourly_tokens u = 300 \<and> hourly_percent u = 30"
  by (simp add: get_current_usage_def Let_def truediv_def record_all_hourly record_all_daily
        init_windows budget_1000_def)

text \<open>
  The scenario of the package's test: ceiling 1000, 500 and 400 tokens recorded. An
  estimate of 100 reaches the ceiling and is accepted, 101 and 200 are rejected.
\<close>

lemma spent_900_hourly:
  "dict_get (hourly_usage (spent_900 now)) (get_hour_key now) 0 = 900"
  by (simp add: spent_900_def record_all_hourly init_windows)

lemma spent_900_config [simp]:
  "config (spent_900 now) = budget_1000"
  by (simp add: spent_900_def init_windows)

lemma budget_scenario:
  "fst (check_budget (spent_900 now) 100 ''deepseek-chat'' now) = Inr True"
  "fst (check_budget (spent_900 now) 101 ''deepseek-chat'' now)
     = Inl (BudgetExceededException HourlyTokens)"
  "fst (check_budget (spent_900 now) 200 ''deepseek-chat'' now)
     = Inl (BudgetExceededException HourlyTokens)"
proof -
  have day: "dict_get (daily_usage (spent_900 now)) (get_day_key now) 0 = 900"
    by (simp add: spent_900_def record_all_daily init_windows)
  have cost: "dict_get (hourly_cost (spent_900 now)) (get_hour_key now) 0 = 126 / 1000000"
    by (simp add: spent_900_def record_all_def record_usage_def Let_def
          CostController_init_def dict_get_def)
  have price: "dict_get (token_costs (spent_900 now)) ''deepseek-chat'' (1 / 1000)
                 = 14 / 100000000"
    by (simp add: spent_900_def record_all_def record_usage_def Let_def
          CostController_init_def dict_get_def)
  show "fst (check_budget (spent_900 now) 100 ''deepseek-chat'' now) = Inr True"
    using check_budget_hourly_boundary [of 100 "spent_900 now" now "''deepseek-chat''"]
    by (simp add: spent_900_hourly day cost price budget_1000_def)
  show "fst (check_budget (spent_900 now) 101 ''deepseek-chat'' now)
          = Inl (BudgetExceededException HourlyTokens)"
    using check_budget_hourly_boundary [of 101 "spent_900 now" now "''deepseek-chat''"]
    by (simp add: spent_900_hourly day cost price budget_1000_def)
  show "fst (check_budget (spent_900 now) 200 ''deepseek-chat'' now)
          = Inl (BudgetExceededException HourlyTokens)"
    using check_budget_hourly_boundary [of 200 "spent_900 now" now "''deepseek-chat''"]
    by (simp add: spent_900_hourly day cost price budget_1000_def)
qed

text \<open>
  Claim C4, at a concrete input. With an hourly ceiling of 0, on a new controller, the
  estimate 0 satisfies \<open>0 \<le> estimate \<le> ceiling\<close>, the tokens of the current hour plus
  the estimate are 0 and so at most the ceiling, and neither the daily nor the cost
  ceiling is exceeded; \<open>check_budget\<close> does not return \<open>True\<close>: it raises
  \<open>ZeroDivisionError\<close>, from the division by the hourly ceiling that computes
  \<open>hourly_percent\<close>. (For every ceiling other than 0 the claim holds:
  \<open>check_budget_hourly_boundary\<close>.)
\<close>

theorem check_budget_zero_ceiling:
  "(0::int) \<le> 0
   \<and> 0 \<le> max_tokens_per_hour (config (CostController_init budget_zero_hourly))
   \<and> dict_get (daily_usage (CostController_init budget_zero_hourly)) (get_day_key now) 0 + 0
       \<le> max_tokens_per_day (config (CostController_init budget_zero_hourly))
   \<and> dict_get (hourly_cost (CostController_init budget_zero_hourly)) (get_hour_key now) 0
       + of_int 0 * dict_get (token_costs (CostController_init budget_zero_hourly))
                      ''deepseek-chat'' (1 / 1000)
       \<le> max_cost_per_hour (config (CostController_init budget_zero_hourly))
   \<and> dict_get (hourly_usage (CostController_init budget_zero_hourly)) (get_hour_key now) 0 + 0
       \<le> max_tokens_per_hour (config (CostController_init budget_zero_hourly))
   \<and> fst (check_budget (CostController_init budget_zero_hourly) 0 ''deepseek-chat'' now)
       = Inl ZeroDivisionError"
  by (simp add: check_budget_def Let_def cleanup_keeps_current_hour cleanup_keeps_current_day
        cleanup_keeps_current_cost init_windows truediv_def budget_zero_hourly_def)

text \<open>
  Claim C5. For an estimate below 0, and for an estimate above the hourly ceiling,
  whatever the controller has recorded: \<open>check_budget\<close> raises \<open>ValueError\<close>, and
  the controller afterwards is the controller before, so the hourly token window, the
  daily token window and the hourly cost window are unchanged.
\<close>

theorem check_budget_rejects_invalid_estimate:
  assumes "estimated_tokens < 0 \<or> estimated_tokens > max_tokens_per_hour (config c)"
  shows "(\<exists>msg. fst (check_budget c estimated_tokens model_name now) = Inl (ValueError msg))
       \<and> snd (check_budget c estimated_tokens model_name now) = c
       \<and> hourly_usage (snd (check_budget c estimated_tokens model_name now)) = hourly_usage c
       \<and> daily_usage (snd (check_budget c estimated_tokens model_name now)) = daily_usage c
       \<and> hourly_cost (snd (check_budget c estimated_tokens model_name now)) = hourly_cost c"
  using assms by (auto simp: check_budget_def)

text \<open>
  The theorem at the controller that has recorded 900 tokens of its 1000 in hour 10:
  the estimates \<open>-1\<close> and \<open>1001\<close> are both refused with \<open>ValueError\<close> and leave
  the controller as it was.
\<close>

theorem check_budget_rejects_invalid_estimate_witness:
  "(\<exists>msg. fst (check_budget (spent_900 10) (- 1) ''deepseek-chat'' 10) = Inl (ValueError msg))
   \<and> snd (check_budget (spent_900 10) (- 1) ''deepseek-chat'' 10) = spent_900 10
   \<and> (\<exists>msg. fst (check_budget (spent_900 10) 1001 ''deepseek-chat'' 10) = Inl (ValueError msg))
   \<and> snd (check_budget (spent_900 10) 1001 ''deepseek-chat'' 10) = spent_900 10"
  using check_budget_rejects_invalid_estimate [of "- 1" "spent_900 10" "''deepseek-chat''" 10]
    check_budget_rejects_invalid_estimate [of 1001 "spent_900 10" "''deepseek-chat''" 10]
  by (simp add: budget_1000_def)

text \<open>
  Claim C6, at a concrete input. With an hourly ceiling of 0, after
  \<open>record_usage(100)\<close> and \<open>record_usage(200)\<close> in one hour, the window of that
  hour holds 300, the sum; \<open>get_current_usage\<close> in the same hour does not report it:
  it raises \<open>ZeroDivisionError\<close>, from the division by the hourly ceiling that
  computes the percentage. (With ceilings other than 0 the claim holds:
  \<open>get_current_usage_reports_sum\<close>, \<open>record_usage_adds\<close>.)
\<close>

theorem get_current_usage_zero_ceiling:
  "dict_get (hourly_usage (record_all (CostController_init budget_zero_hourly) [100, 200]
               ''deepseek-chat'' now)) (get_hour_key now) 0 = 300
   \<and> get_current_usage (record_all (CostController_init budget_zero_hourly) [100, 200]
         ''deepseek-chat'' now) now = Inl ZeroDivisionError"
  by (simp add: get_current_usage_def Let_def truediv_def record_all_hourly init_windows
        budget_zero_hourly_def)

subsection \<open>The retry wrapper on a provider that has its counters\<close>

text \<open>
  One iteration of the loop, on a provider object whose \<open>request_count\<close> exists.
  A retryable error: the counter goes up by one, the provider-level error becomes
  \<open>last_exception\<close>, the wrapper sleeps \<open>backoff\<close> and goes on to the next
  attempt.
\<close>

lemma attempts_retryable_step:
  assumes "request_count p = Some n" and "func a = Raised e" and "retryable e"
  shows "attempts p func bf a (Suc r) le evs =
           attempts (p\<lparr>request_count := Some (n + 1)\<rparr>) func bf (Suc a) r
             (Some (provider_error_of e)) (evs @ [Invoked a, Slept (backoff bf a e)])"
  using assms by (cases e) (auto simp: Let_def split: option.splits)

text \<open>
  An \<open>APIError\<close> with a status code from 400 to 499: the loop is left at once by
  raising \<open>ProviderError\<close> (``Client error''); no sleep and no later invocation.
\<close>

lemma attempts_client_error:
  assumes "request_count p = Some n" and "func a = Raised (APIError (Some s) e)"
    and "400 \<le> s" and "s < 500"
  shows "attempts p func bf a (Suc r) le evs =
           (Raise (ProviderError (''Client error: '' @ e)),
            p\<lparr>request_count := Some (n + 1)\<rparr>, evs @ [Invoked a])"
  using assms by (simp add: Let_def)

text \<open>Any other exception: \<open>break\<close>, with a generic \<open>ProviderError\<close> as \<open>last_exception\<close>.\<close>

lemma attempts_unexpected:
  assumes "request_count p = Some n" and "func a = Raised (OtherException e)"
  shows "attempts p func bf a (Suc r) le evs =
           (AfterLoop (Some (ProviderError (''Unexpected error: '' @ e))),
            p\<lparr>request_count := Some (n + 1)\<rparr>, evs @ [Invoked a])"
  using assms by (simp add: Let_def)

lemma attempts_returned:
  assumes "request_count p = Some n" and "func a = Returned x"
  shows "attempts p func bf a (Suc r) le evs =
           (Return x, p\<lparr>request_count := Some (n + 1)\<rparr>, evs @ [Invoked a])"
  using assms by (simp add: Let_def)

text \<open>The sleep after a failure grows from one attempt to the next (for a positive factor).\<close>

lemma backoff_increases:
  "0 < bf \<Longrightarrow> backoff bf a (RateLimitError e) < backoff bf (Suc a) (RateLimitError e')"
  "backoff bf a (APITimeoutError e) < backoff bf (Suc a) (APITimeoutError e')"
  "backoff bf a (APIConnectionError e) < backoff bf (Suc a) (APIConnectionError e')"
  "backoff bf a (APIError sc e) < backoff bf (Suc a) (APIError sc' e')"
  by simp_all

text \<open>\<open>r\<close> attempts that all fail with retryable errors.\<close>

lemma attempts_all_retryable:
  assumes "\<forall>k. a \<le> k \<and> k < a + r \<longrightarrow> (\<exists>e. func k = Raised e \<and> retryable e)"
    and "request_count p = Some n"
  shows "attempts p func bf a r le evs =
           (AfterLoop (last_exception_after func a r le),
            p\<lparr>request_count := Some (n + int r)\<rparr>, evs @ failure_events bf func a r)"
  using assms
proof (induction r arbitrary: a p n le evs)
  case 0
  then show ?case by simp
next
  case (Suc r)
  from Suc.prems(1) have "\<exists>e. func a = Raised e \<and> retryable e"
    by simp
  then obtain e where e: "func a = Raised e" "retryable e"
    by blast
  have rest: "\<forall>k. Suc a \<le> k \<and> k < Suc a + r \<longrightarrow> (\<exists>e. func k = Raised e \<and> retryable e)"
    using Suc.prems(1) by simp
  have "attempts p func bf a (Suc r) le evs =
          attempts (p\<lparr>request_count := Some (n + 1)\<rparr>) func bf (Suc a) r
            (Some (provider_error_of e)) (evs @ [Invoked a, Slept (backoff bf a e)])"
    using Suc.prems(2) e by (rule attempts_retryable_step)
  also have "\<dots> =
      (AfterLoop (last_exception_after func (Suc a) r (Some (provider_error_of e))),
       p\<lparr>request_count := Some (n + 1)\<rparr>\<lparr>request_count := Some (n + 1 + int r)\<rparr>,
       (evs @ [Invoked a, Slept (backoff bf a e)]) @ failure_events bf func (Suc a) r)"
    by (rule Suc.IH [OF rest]) simp
  finally show ?case
    using e by (simp add: add.commute add.left_commute)
qed

lemma last_exception_after_last:
  assumes "func (a + r) = Raised e"
  shows "last_exception_after func a (Suc r) le = Some (provider_error_of e)"
  using assms by (induction r arbitrary: a le) simp_all

text \<open>
  In \<open>r\<close> failed attempts from attempt \<open>a\<close>, \<open>func\<close> is invoked once in each of
  the attempts \<open>a, \<dots>, a + r - 1\<close>, and each is followed by one sleep.
\<close>

lemma failure_events_counts:
  assumes "\<forall>k. a \<le> k \<and> k < a + r \<longrightarrow> (\<exists>e. func k = Raised e)"
  shows "length (sleeps (failure_events bf func a r)) = r
       \<and> invocations (failure_events bf func a r) = [a..<a + r]"
  using assms
proof (induction r arbitrary: a)
  case 0
  then show ?case by simp
next
  case (Suc r)
  from Suc.prems have "\<exists>e. func a = Raised e"
    by simp
  then obtain e where e: "func a = Raised e"
    by blast
  have "\<forall>k. Suc a \<le> k \<and> k < Suc a + r \<longrightarrow> (\<exists>e. func k = Raised e)"
    using Suc.prems by simp
  from Suc.IH [OF this] show ?case
    using e by (simp add: upt_conv_Cons)
qed

text \<open>
  An exhausted call on a provider object that has both counters: every one of the
  \<open>max_retries\<close> attempts fails with a retryable error. The wrapper raises the
  provider-level error made from the last failure, \<open>request_count\<close> has grown by
  \<open>max_retries\<close> (one per attempt) and \<open>error_count\<close> by one.
\<close>

lemma execute_with_retry_exhausted:
  assumes "0 < max_retries"
    and "\<forall>k < nat max_retries. \<exists>e. func k = Raised e \<and> retryable e"
    and "func (nat max_retries - 1) = Raised e"
    and "request_count p = Some n" and "error_count p = Some m"
  shows "execute_with_retry p func max_retries bf =
           (Inl (provider_error_of e),
            p\<lparr>request_count := Some (n + max_retries), error_count := Some (m + 1)\<rparr>,
            failure_events bf func 0 (nat max_retries))"
proof -
  obtain r where r: "nat max_retries = Suc r"
    using assms(1) by (cases "nat max_retries") auto
  have a: "\<forall>k. 0 \<le> k \<and> k < 0 + nat max_retries \<longrightarrow> (\<exists>e. func k = Raised e \<and> retryable e)"
    using assms(2) by simp
  have le: "last_exception_after func 0 (nat max_retries) None = Some (provider_error_of e)"
    using last_exception_after_last [of func 0 r e None] assms(3) r by simp
  have "int (nat max_retries) = max_retries"
    using assms(1) by simp
  then show ?thesis
    using attempts_all_retryable [OF a assms(4), of bf None "[]"] le assms(5)
    by (simp add: execute_with_retry_def)
qed

text \<open>
  A rate-limit error in attempts 0 and 1 and a result in attempt 2, on a provider
  object that has \<open>request_count\<close>: the result is returned after exactly two sleeps,
  of \<open>backoff_factor\<close> and \<open>2 * backoff_factor\<close> seconds.
\<close>

lemma rate_limit_twice_then_success:
  assumes "request_count p = Some n"
    and "func 0 = Raised (RateLimitError e0)" and "func 1 = Raised (RateLimitError e1)"
    and "func 2 = Returned x"
    and "3 \<le> max_retries"
  shows "execute_with_retry p func max_retries bf =
           (Inr x, p\<lparr>request_count := Some (n + 3)\<rparr>,
            [Invoked 0, Slept bf, Invoked 1, Slept (2 * bf), Invoked 2])"
proof -
  have "3 \<le> nat max_retries"
    using assms(5) by simp
  then obtain r0 where "nat max_retries = 3 + r0"
    using le_Suc_ex by blast
  then have r: "nat max_retries = Suc (Suc (Suc r0))"
    by simp
  have f1: "func (Suc 0) = Raised (RateLimitError e1)"
    using assms(3) by simp
  have f2: "func (Suc (Suc 0)) = Returned x"
    using assms(4) by (simp add: numeral_2_eq_2)
  show ?thesis
    using assms(1,2) f1 f2 by (simp add: execute_with_retry_def r Let_def numeral_2_eq_2)
qed

text \<open>
  Runs on an object whose counters have been set to 0, with the default
  \<open>max_retries = 3\<close> and \<open>backoff_factor = 1.5\<close>: three rate-limit errors; a
  client error (status 400), which leaves \<open>error_count\<close> as it was; an
  unexpected exception.
\<close>

lemma exhausted_scenario_with_counters:
  "execute_with_retry \<lparr> cfg = c, name = ''deepseek'', request_count = Some 0, error_count = Some 0 \<rparr>
     (\<lambda>k. Raised (RateLimitError ''429'')) 3 (3 / 2)
     = (Inl (ProviderRateLimitError ''Rate limit error: 429''),
        \<lparr> cfg = c, name = ''deepseek'', request_count = Some 3, error_count = Some 1 \<rparr>,
        [Invoked 0, Slept (3 / 2), Invoked 1, Slept 3, Invoked 2, Slept 6])"
  by (simp add: execute_with_retry_def Let_def numeral_3_eq_3)

lemma client_error_scenario_with_counters:
  "execute_with_retry \<lparr> cfg = c, name = ''deepseek'', request_count = Some 0, error_count = Some 0 \<rparr>
     (\<lambda>k. Raised (APIError (Some 400) ''bad request'')) 3 (3 / 2)
     = (Inl (ProviderError ''Client error: bad request''),
        \<lparr> cfg = c, name = ''deepseek'', request_count = Some 1, error_count = Some 0 \<rparr>,
        [Invoked 0])"
  by (simp add: execute_with_retry_def Let_def numeral_3_eq_3)

lemma unexpected_scenario_with_counters:
  "execute_with_retry \<lparr> cfg = c, name = ''deepseek'', request_count = Some 0, error_count = Some 0 \<rparr>
     (\<lambda>k. Raised (OtherException ''boom'')) 3 (3 / 2)
     = (Inl (ProviderError ''Unexpected error: boom''),
        \<lparr> cfg = c, name = ''deepseek'', request_count = Some 1, error_count = Some 1 \<rparr>,
        [Invoked 0])"
  by (simp add: execute_with_retry_def Let_def numeral_3_eq_3)

subsection \<open>The retry wrapper on a provider as the package constructs it\<close>

text \<open>
  Claim C3, on the provider objects of the package. \<open>BaseProvider.__init__\<close> does
  not assign the counters. Whatever \<open>func\<close> does (in particular when each of its
  calls would fail with a retryable error), whatever \<open>max_retries\<close> and
  \<open>backoff_factor\<close>: \<open>_execute_with_retry\<close> raises \<open>AttributeError\<close> for
  \<open>error_count\<close>, not a provider-level error carrying the last cause; \<open>func\<close> is
  never invoked and the wrapper never sleeps; the object is unchanged, so neither
  counter has increased. (On an object that has both counters the claim holds:
  \<open>execute_with_retry_exhausted\<close>.)
\<close>

theorem execute_with_retry_uninitialised_counters:
  "execute_with_retry (BaseProvider_init c) func max_retries backoff_factor
     = (Inl (AttributeError ''error_count''), BaseProvider_init c, [])"
  by (cases "nat max_retries") (simp_all add: execute_with_retry_def BaseProvider_init_def)

text \<open>
  Claim C7, on a provider object of the package, with the default \<open>max_retries = 3\<close>
  and \<open>backoff_factor = 1.5\<close>. The first statement in the \<open>try\<close> block raises an
  unexpected exception (\<open>AttributeError\<close> for \<open>request_count\<close>); the loop is
  left at once, and what reaches the caller is not a generic \<open>ProviderError\<close> but
  the \<open>AttributeError\<close> for \<open>error_count\<close>. This is so for a wrapped function
  that would raise an unexpected exception and for one that would raise a client
  error (status 400): neither is ever invoked. (On an object that has both counters
  the claim holds: \<open>attempts_client_error\<close>, \<open>attempts_unexpected\<close>.)
\<close>

theorem execute_with_retry_unexpected_not_generic:
  "execute_with_retry (BaseProvider_init c) (\<lambda>k. Raised (OtherException ''boom'')) 3 (3 / 2)
     = (Inl (AttributeError ''error_count''), BaseProvider_init c, [])
   \<and> execute_with_retry (BaseProvider_init c)
        (\<lambda>k. Raised (APIError (Some 400) ''bad request'')) 3 (3 / 2)
     = (Inl (AttributeError ''error_count''), BaseProvider_init c, [])"
  by (simp add: execute_with_retry_def BaseProvider_init_def numeral_3_eq_3)

text \<open>
  Claim C8, on a provider object of the package, with the default \<open>max_retries = 3\<close>
  and \<open>backoff_factor = 1.5\<close>. A wrapped function that would raise a rate-limit
  error on its first two calls and return \<open>ok\<close> on the third: the wrapper does not
  return \<open>ok\<close>, it raises \<open>AttributeError\<close>, and it has not slept. (On an object
  that has \<open>request_count\<close> the claim holds: \<open>attempts_retryable_step\<close>,
  \<open>rate_limit_twice_then_success\<close>, \<open>backoff_increases\<close>.)
\<close>

theorem execute_with_retry_rate_limit_scenario:
  "execute_with_retry (BaseProvider_init c)
     (\<lambda>k. if k < 2 then Raised (RateLimitError ''429'') else Returned ''ok'') 3 (3 / 2)
     = (Inl (AttributeError ''error_count''), BaseProvider_init c, [])
   \<and> sleeps (snd (snd (execute_with_retry (BaseProvider_init c)
        (\<lambda>k. if k < 2 then Raised (RateLimitError ''429'') else Returned ''ok'') 3 (3 / 2)))) = []"
  by (simp add: execute_with_retry_def BaseProvider_init_def numeral_3_eq_3)

text \<open>
  The same wrapped function on an object whose counters have been set to 0: the
  result is \<open>ok\<close>, after sleeps of 1.5 and 3 seconds.
\<close>

lemma rate_limit_scenario_with_counters:
  "execute_with_retry \<lparr> cfg = c, name = ''deepseek'', request_count = Some 0, error_count = Some 0 \<rparr>
     (\<lambda>k. if k < 2 then Raised (RateLimitError ''429'') else Returned ''ok'') 3 (3 / 2)
     = (Inr ''ok'',
        \<lparr> cfg = c, name = ''deepseek'', request_count = Some 3, error_count = Some 0 \<rparr>,
        [Invoked 0, Slept (3 / 2), Invoked 1, Slept 3, Invoked 2])"
  by (simp add: execute_with_retry_def Let_def numeral_3_eq_3)

subsection \<open>The orchestrator\<close>

lemma providers_of_two:
  "DAList.impl_of (providers (two_providers p1 p2)) = [(''P1'', p1), (''P2'', p2)]"
  by (simp add: two_providers_def register_provider_def AIOrchestrator_init_def
        update.rep_eq empty.rep_eq)

lemma history_of_two:
  "request_history (two_providers p1 p2) = []"
  by (simp add: two_providers_def register_provider_def AIOrchestrator_init_def)

text \<open>
  The outcome of \<open>AIOrchestrator.chat\<close> is the outcome of the \<open>chat\<close> of the
  provider registered first, whatever else is registered.
\<close>

lemma chat_first_provider_only:
  assumes "DAList.impl_of (providers orch) = (nm, prov) # others"
  shows "fst (AIOrchestrator_chat orch prompt m) = chat prov prompt (GenerationParams m)"
  using assms by (simp add: AIOrchestrator_chat_def Let_def split: sum.splits)

text \<open>
  Claim C1, at a concrete input. \<open>P1\<close>, registered first, fails every \<open>chat\<close> with
  a rate-limit error; \<open>P2\<close>, registered second, answers \<open>pong\<close>. The call
  \<open>chat("ping")\<close> does not return \<open>pong\<close>: it raises the error of \<open>P1\<close>, and
  the orchestrator (its history included) is unchanged.
\<close>

theorem chat_does_not_fail_over:
  "AIOrchestrator_chat
     (two_providers (always_raises (ProviderRateLimitError ''Rate limit error: 429''))
        (always_answers ''pong''))
     ''ping'' ''deepseek-chat''
   = (Inl (ProviderRateLimitError ''Rate limit error: 429''),
      two_providers (always_raises (ProviderRateLimitError ''Rate limit error: 429''))
        (always_answers ''pong''))"
  by (simp add: AIOrchestrator_chat_def providers_of_two always_raises_def)

text \<open>When the first provider answers, its answer is returned and appended to the history.\<close>

lemma chat_first_provider_answers:
  "AIOrchestrator_chat (two_providers (always_answers r) p2) prompt m
   = (Inr r,
      (two_providers (always_answers r) p2)
        \<lparr> request_history :=
            [\<lparr> entry_prompt = prompt, entry_model = m, entry_response = r \<rparr>] \<rparr>)"
  by (simp add: AIOrchestrator_chat_def providers_of_two history_of_two always_answers_def
        Let_def)

text \<open>
  Claim C2, at a concrete input. \<open>P1\<close> always fails with a timeout error and \<open>P2\<close>
  always fails with a connection error. The call does not return; what it raises is
  the error of \<open>P1\<close> as \<open>P1\<close> raised it: not an error of a class for ``all
  providers failed'' (\<open>core.py\<close> defines none), and nothing in it stems from
  \<open>P2\<close>.
\<close>

theorem chat_raises_first_provider_error:
  "AIOrchestrator_chat
     (two_providers (always_raises (ProviderTimeoutError ''Timeout: P1''))
        (always_raises (ProviderConnectionError ''Connection error: P2'')))
     ''ping'' ''deepseek-chat''
   = (Inl (ProviderTimeoutError ''Timeout: P1''),
      two_providers (always_raises (ProviderTimeoutError ''Timeout: P1''))
        (always_raises (ProviderConnectionError ''Connection error: P2'')))"
  by (simp add: AIOrchestrator_chat_def providers_of_two always_raises_def)

end
